theory Spec2Isabelle
  imports Main "HOL-Library.Word"
begin

section \<open>Go values used by fuse/request.go\<close>

type_synonym byte = "8 word"
type_synonym uint32 = "32 word"
type_synonym uint64 = "64 word"

text \<open>Modelled from the spec: the declaration of \<^verbatim>\<open>Status\<close> and of \<^verbatim>\<open>OK\<close> is not in
  request.go. The status is a signed 32-bit integer (negation wraps, and comparisons read
  the word with \<open>sint\<close>), and 0 is success.\<close>

type_synonym Status = "32 word"

definition OK :: Status where
  "OK = 0"

text \<open>A run-time failure of the Go code. \<open>IndexOutOfRange\<close> and \<open>SliceBoundsOutOfRange\<close>
  are Go's panics; \<open>InvalidMemoryAccess\<close> is a read or write through an
  \<^verbatim>\<open>unsafe.Pointer\<close> that leaves the array the pointer points into.\<close>

datatype panic = IndexOutOfRange | SliceBoundsOutOfRange | InvalidMemoryAccess

definition bindE :: "panic + 'a \<Rightarrow> ('a \<Rightarrow> panic + 'b) \<Rightarrow> panic + 'b" where
  "bindE m f = (case m of Inl e \<Rightarrow> Inl e | Inr x \<Rightarrow> f x)"

text \<open>The arrays a byte slice of a request can point into: the two inline arrays of the
  request itself, and arrays owned by someone else (the buffer the caller read the
  frame into, pool buffers), numbered.\<close>

datatype array_id = OutBufArray | SmallInputBufArray | HeapArray nat

text \<open>A non-nil \<^verbatim>\<open>[]byte\<close>: the array it points into, the offset of its first element,
  its length and its capacity. A field of type \<^verbatim>\<open>[]byte\<close> is a \<open>byteslice option\<close>,
  \<open>None\<close> being the nil slice.\<close>

datatype byteslice = Slice (s_array: array_id) (s_off: nat) (s_len: nat) (s_cap: nat)

definition slen :: "byteslice option \<Rightarrow> nat" where
  "slen s = (case s of None \<Rightarrow> 0 | Some x \<Rightarrow> s_len x)"

definition scap :: "byteslice option \<Rightarrow> nat" where
  "scap s = (case s of None \<Rightarrow> 0 | Some x \<Rightarrow> s_cap x)"

text \<open>\<^verbatim>\<open>s[lo:]\<close> panics unless \<open>lo \<le> len(s)\<close>.\<close>

definition slice_from :: "byteslice option \<Rightarrow> nat \<Rightarrow> panic + byteslice option" where
  "slice_from s lo =
     (if lo \<le> slen s
      then Inr (map_option (\<lambda>x. Slice (s_array x) (s_off x + lo) (s_len x - lo) (s_cap x - lo)) s)
      else Inl SliceBoundsOutOfRange)"

text \<open>\<^verbatim>\<open>s[:hi]\<close> panics unless \<open>0 \<le> hi \<le> cap(s)\<close>.\<close>

definition slice_to :: "byteslice option \<Rightarrow> int \<Rightarrow> panic + byteslice option" where
  "slice_to s hi =
     (if 0 \<le> hi \<and> nat hi \<le> scap s
      then Inr (map_option (\<lambda>x. Slice (s_array x) (s_off x) (nat hi) (s_cap x)) s)
      else Inl SliceBoundsOutOfRange)"

text \<open>\<^verbatim>\<open>a[:hi]\<close> on an array of \<open>n\<close> elements.\<close>

definition array_slice_to :: "array_id \<Rightarrow> nat \<Rightarrow> nat \<Rightarrow> panic + byteslice option" where
  "array_slice_to a n hi =
     (if hi \<le> n then Inr (Some (Slice a 0 hi n)) else Inl SliceBoundsOutOfRange)"

text \<open>\<^verbatim>\<open>&s[0]\<close>: the address of the first element, an index panic on an empty or nil
  slice.\<close>

definition elem0 :: "byteslice option \<Rightarrow> panic + array_id \<times> nat" where
  "elem0 s = (case s of
       None \<Rightarrow> Inl IndexOutOfRange
     | Some x \<Rightarrow> if 0 < s_len x then Inr (s_array x, s_off x) else Inl IndexOutOfRange)"

text \<open>Fixed-width integers in memory, least significant byte first.\<close>

definition le_decode :: "byte list \<Rightarrow> 'a::len word" where
  "le_decode bs = word_rcat (rev bs)"

definition le_encode :: "nat \<Rightarrow> 'a::len word \<Rightarrow> byte list" where
  "le_encode n w = map (\<lambda>i. ucast (drop_bit (8 * i) w)) [0..<n]"

text \<open>Overwriting part of an array.\<close>

definition overwrite :: "byte list \<Rightarrow> nat \<Rightarrow> byte list \<Rightarrow> byte list" where
  "overwrite a p bs = take p a @ bs @ drop (p + length bs) a"

text \<open>\<^verbatim>\<open>string(b)\<close>: the bytes as characters.\<close>

definition gostring :: "byte list \<Rightarrow> string" where
  "gostring bs = map (\<lambda>b. char_of (unat b)) bs"

text \<open>\<^verbatim>\<open>bytes.SplitN(s, []byte{sep}, n)\<close> for a separator of one byte: at most \<open>n\<close>
  pieces, the last one the unsplit rest; all pieces when \<open>n < 0\<close>, none when \<open>n = 0\<close>.\<close>

fun splitAt :: "byte \<Rightarrow> nat \<Rightarrow> byte list \<Rightarrow> byte list list" where
  "splitAt sep 0 s = [s]"
| "splitAt sep (Suc k) s =
     (if sep \<in> set s
      then takeWhile (\<lambda>b. b \<noteq> sep) s # splitAt sep k (tl (dropWhile (\<lambda>b. b \<noteq> sep) s))
      else [s])"

definition SplitN :: "byte list \<Rightarrow> byte \<Rightarrow> int \<Rightarrow> byte list list" where
  "SplitN s sep n =
     (if n = 0 then []
      else if n < 0 then splitAt sep (length s) s
      else splitAt sep (nat n - 1) s)"

section \<open>The request\<close>

text \<open>Modelled from the spec: the declaration of \<^verbatim>\<open>readResultFd\<close> and its method
  \<^verbatim>\<open>Size()\<close> are not in request.go. It is a file descriptor, an offset and a size, and
  \<^verbatim>\<open>Size()\<close> is the size.\<close>

record readResultFd =
  Fd :: nat
  Off :: int
  Sz :: int

text \<open>\<^verbatim>\<open>type request struct\<close>, field by field. The channel and the \<^verbatim>\<open>ReadResult\<close>
  interface value are handles (\<open>None\<close> is nil); \<open>startTime\<close> is a time stamp whose zero
  value is 0.\<close>

record request =
  inflightIndex :: int
  cancel :: "nat option"
  interrupted :: bool
  inputBuf :: "byteslice option"
  outputBuf :: "byteslice option"
  arg :: "byteslice option"
  filenames :: "string list option"
  status :: Status
  flatData :: "byteslice option"
  fdData :: "readResultFd option"
  readResult :: "nat option"
  startTime :: nat
  bufferPoolInputBuf :: "byteslice option"
  bufferPoolOutputBuf :: "byteslice option"
  outBuf :: "byte list"
  smallInputBuf :: "byte list"

text \<open>A request together with the arrays that are not part of it but that its slices
  may point into.\<close>

record state = request +
  heap :: "nat \<Rightarrow> byte list"

definition array_of :: "state \<Rightarrow> array_id \<Rightarrow> byte list" where
  "array_of r a = (case a of
       OutBufArray \<Rightarrow> outBuf r
     | SmallInputBufArray \<Rightarrow> smallInputBuf r
     | HeapArray n \<Rightarrow> heap r n)"

definition set_array :: "array_id \<Rightarrow> byte list \<Rightarrow> state \<Rightarrow> state" where
  "set_array a v r = (case a of
       OutBufArray \<Rightarrow> r\<lparr>outBuf := v\<rparr>
     | SmallInputBufArray \<Rightarrow> r\<lparr>smallInputBuf := v\<rparr>
     | HeapArray n \<Rightarrow> r\<lparr>heap := (heap r)(n := v)\<rparr>)"

text \<open>The elements of a slice.\<close>

definition bytes_of :: "state \<Rightarrow> byteslice option \<Rightarrow> byte list" where
  "bytes_of r s = (case s of
       None \<Rightarrow> []
     | Some x \<Rightarrow> take (s_len x) (drop (s_off x) (array_of r (s_array x))))"

text \<open>Reading and writing \<open>n\<close> bytes at byte offset \<open>k\<close> behind a pointer.\<close>

definition load :: "state \<Rightarrow> array_id \<times> nat \<Rightarrow> nat \<Rightarrow> nat \<Rightarrow> panic + byte list" where
  "load r p k n =
     (if snd p + k + n \<le> length (array_of r (fst p))
      then Inr (take n (drop (snd p + k) (array_of r (fst p))))
      else Inl InvalidMemoryAccess)"

definition store :: "array_id \<times> nat \<Rightarrow> nat \<Rightarrow> byte list \<Rightarrow> state \<Rightarrow> panic + state" where
  "store p k bs r =
     (if snd p + k + length bs \<le> length (array_of r (fst p))
      then Inr (set_array (fst p) (overwrite (array_of r (fst p)) (snd p + k) bs) r)
      else Inl InvalidMemoryAccess)"

section \<open>What request.go takes from the rest of package fuse\<close>

text \<open>An entry of the opcode table: the fields of \<^verbatim>\<open>operationHandler\<close> that request.go
  reads (sizes are \<^verbatim>\<open>uintptr\<close>, the name count is an \<^verbatim>\<open>int\<close>).\<close>

record operationHandler =
  InputSize :: nat
  OutputSize :: nat
  FileNames :: int
  FileNameOut :: bool

text \<open>The opcode table (\<^verbatim>\<open>getHandler\<close>, nil for an opcode without an entry), the named
  opcodes, the status codes, the length of the inline output array and the size of
  \<^verbatim>\<open>RenameIn\<close> are declared in files of the package other than request.go. They are
  parameters of the model.\<close>

record fusepkg =
  getHandler :: "uint32 \<Rightarrow> operationHandler option"
  outputHeaderSize :: nat
  sizeOfRenameIn :: nat
  OP_RENAME :: uint32
  OP_INIT :: uint32
  OP_SETXATTR :: uint32
  OP_GETXATTR :: uint32
  OP_LISTXATTR :: uint32
  ENOSYS :: Status
  EIO :: Status

text \<open>Modelled from the spec: the declarations of \<^verbatim>\<open>InHeader\<close>, \<^verbatim>\<open>OutHeader\<close> and
  \<^verbatim>\<open>GetXAttrIn\<close> are not in request.go. The spec gives the layouts: the in-header is
  length u32, opcode u32, unique u64, nodeId u64, uid u32, gid u32, pid u32, padding u32
  (40 bytes); the out-header is length u32, status i32, unique u64 (16 bytes); an input
  record starts with the in-header, and \<^verbatim>\<open>Size\<close> is the first field of the xattr record
  behind it.\<close>

definition sizeOfInHeader :: nat where
  "sizeOfInHeader = 40"

definition sizeOfOutHeader :: nat where
  "sizeOfOutHeader = 16"

section \<open>The functions of request.go\<close>

text \<open>\<^verbatim>\<open>inData\<close> and \<^verbatim>\<open>outHeader\<close>: the address of the first byte of the buffer.\<close>

definition inData :: "state \<Rightarrow> panic + array_id \<times> nat" where
  "inData r = elem0 (inputBuf r)"

definition outHeader :: "state \<Rightarrow> panic + array_id \<times> nat" where
  "outHeader r = elem0 (outputBuf r)"

text \<open>\<^verbatim>\<open>func (r *request) clear()\<close>\<close>

definition clear :: "state \<Rightarrow> state" where
  "clear r = r\<lparr>inputBuf := None, outputBuf := None, arg := None, filenames := None,
     status := OK, flatData := None, fdData := None, startTime := 0, readResult := None\<rparr>"

text \<open>Fields read through \<^verbatim>\<open>r.inHeader()\<close> and \<^verbatim>\<open>(*GetXAttrIn)(r.inData())\<close>.\<close>

definition inHeader_Opcode :: "state \<Rightarrow> panic + uint32" where
  "inHeader_Opcode r = bindE (inData r) (\<lambda>p. bindE (load r p 4 4) (\<lambda>bs. Inr (le_decode bs)))"

definition inHeader_Unique :: "state \<Rightarrow> panic + uint64" where
  "inHeader_Unique r = bindE (inData r) (\<lambda>p. bindE (load r p 8 8) (\<lambda>bs. Inr (le_decode bs)))"

definition GetXAttrIn_Size :: "state \<Rightarrow> panic + uint32" where
  "GetXAttrIn_Size r =
     bindE (inData r) (\<lambda>p. bindE (load r p sizeOfInHeader 4) (\<lambda>bs. Inr (le_decode bs)))"

text \<open>Fields read through \<^verbatim>\<open>r.outHeader()\<close>.\<close>

definition outHeader_Length :: "state \<Rightarrow> panic + uint32" where
  "outHeader_Length r = bindE (outHeader r) (\<lambda>p. bindE (load r p 0 4) (\<lambda>bs. Inr (le_decode bs)))"

definition outHeader_Status :: "state \<Rightarrow> panic + Status" where
  "outHeader_Status r = bindE (outHeader r) (\<lambda>p. bindE (load r p 4 4) (\<lambda>bs. Inr (le_decode bs)))"

definition outHeader_Unique :: "state \<Rightarrow> panic + uint64" where
  "outHeader_Unique r = bindE (outHeader r) (\<lambda>p. bindE (load r p 8 8) (\<lambda>bs. Inr (le_decode bs)))"

text \<open>\<^verbatim>\<open>func (r *request) setInput(input []byte) bool\<close>. \<^verbatim>\<open>copy\<close> moves as many bytes as
  the shorter of its two arguments has.\<close>

definition setInput :: "byteslice option \<Rightarrow> state \<Rightarrow> bool \<times> state" where
  "setInput input r =
     (if slen input < length (smallInputBuf r)
      then (False,
        r\<lparr>smallInputBuf :=
             overwrite (smallInputBuf r) 0 (take (length (smallInputBuf r)) (bytes_of r input)),
          inputBuf := Some (Slice SmallInputBufArray 0 (slen input) (length (smallInputBuf r)))\<rparr>)
      else (True,
        r\<lparr>inputBuf := input,
          bufferPoolInputBuf :=
            map_option (\<lambda>x. Slice (s_array x) (s_off x) (s_cap x) (s_cap x)) input\<rparr>))"

text \<open>\<^verbatim>\<open>func (r *request) parse(kernelSettings *InitIn)\<close>, in four parts. The opcode is
  read from the in-header once (nothing in parse writes to the input).
  \<open>renameSwap\<close> is the value of \<^verbatim>\<open>kernelSettings.supportsRenameSwap()\<close>.

  Lines 192 to 199: the input size.\<close>

definition parse_inSz :: "fusepkg \<Rightarrow> bool \<Rightarrow> state \<Rightarrow> uint32 \<Rightarrow> operationHandler \<Rightarrow> nat" where
  "parse_inSz K renameSwap r opcode h =
     (let inSz = InputSize h;
          inSz = (if opcode = OP_RENAME K \<and> renameSwap then sizeOfRenameIn K else inSz)
      in if opcode = OP_INIT K \<and> inSz > slen (arg r) then slen (inputBuf r) else inSz)"

text \<open>Lines 212 to 232: the file names.\<close>

definition parse_filenames :: "fusepkg \<Rightarrow> uint32 \<Rightarrow> operationHandler \<Rightarrow> state \<Rightarrow> panic + state" where
  "parse_filenames K opcode h r =
     (let count = FileNames h in
      if count > 0 then
        if count = 1 \<and> opcode = OP_SETXATTR K then
          (case SplitN (bytes_of r (arg r)) 0 2 of
             [] \<Rightarrow> Inl IndexOutOfRange
           | name # rest \<Rightarrow> Inr (r\<lparr>filenames := Some [gostring name]\<rparr>))
        else if count = 1 then
          bindE (slice_to (arg r) (int (slen (arg r)) - 1)) (\<lambda>n.
            Inr (r\<lparr>filenames := Some [gostring (bytes_of r n)]\<rparr>))
        else
          bindE (slice_to (arg r) (int (slen (arg r)) - 1)) (\<lambda>n.
            let names = SplitN (bytes_of r n) 0 count in
            Inr (r\<lparr>filenames := Some (map gostring names),
                   status := (if int (length names) = count then status r else EIO K)\<rparr>))
      else Inr r)"

text \<open>Lines 234 and 235: the output buffer, a slice of the inline array, zeroed by a
  copy from the all-zero array \<^verbatim>\<open>zeroOutBuf\<close> of \<open>outputHeaderSize\<close> bytes.\<close>

definition parse_output :: "fusepkg \<Rightarrow> operationHandler \<Rightarrow> state \<Rightarrow> panic + state" where
  "parse_output K h r =
     bindE (array_slice_to OutBufArray (length (outBuf r)) (OutputSize h + sizeOfOutHeader)) (\<lambda>ob.
       Inr (r\<lparr>outputBuf := ob,
              outBuf := overwrite (outBuf r) 0
                (replicate (min (slen ob) (outputHeaderSize K)) 0)\<rparr>))"

definition parse :: "fusepkg \<Rightarrow> bool \<Rightarrow> state \<Rightarrow> panic + state" where
  "parse K renameSwap r =
     bindE (inHeader_Opcode r) (\<lambda>opcode.
       case getHandler K opcode of
         None \<Rightarrow> Inr (r\<lparr>status := ENOSYS K\<rparr>)
       | Some h \<Rightarrow>
           let inSz = parse_inSz K renameSwap r opcode h in
           if slen (inputBuf r) < inSz then Inr (r\<lparr>status := EIO K\<rparr>)
           else
             bindE (slice_from (inputBuf r) (if InputSize h > 0 then inSz else sizeOfInHeader))
               (\<lambda>a. bindE (parse_filenames K opcode h (r\<lparr>arg := a\<rparr>)) (parse_output K h)))"

text \<open>\<^verbatim>\<open>func (r *request) serializeHeader(flatDataSize int)\<close>, in two parts. The opcode
  is read from the in-header once (every read of the input comes before the first write
  to the output).

  Lines 245 to 264: the length of the structured data.\<close>

definition serializeHeader_dataLength :: "fusepkg \<Rightarrow> state \<Rightarrow> uint32 \<Rightarrow> panic + nat" where
  "serializeHeader_dataLength K r opcode =
     (let dataLength = (case getHandler K opcode of None \<Rightarrow> 0 | Some h \<Rightarrow> OutputSize h);
          dataLength = (if 0 < sint (status r) then 0 else dataLength)
      in if opcode = OP_GETXATTR K \<or> opcode = OP_LISTXATTR K
         then bindE (GetXAttrIn_Size r) (\<lambda>sz. Inr (if sz = 0 then dataLength else 0))
         else Inr dataLength)"

text \<open>Lines 266 to 272: the three fields of the out-header, stored through the pointer
  to the first byte of outputBuf, and the new length of outputBuf. The length field is
  computed in \<^verbatim>\<open>int\<close> and converted to \<^verbatim>\<open>uint32\<close>, which keeps its low 32 bits.\<close>

definition serializeHeader :: "fusepkg \<Rightarrow> int \<Rightarrow> state \<Rightarrow> panic + state" where
  "serializeHeader K flatDataSize r =
     bindE (inHeader_Opcode r) (\<lambda>opcode.
     bindE (serializeHeader_dataLength K r opcode) (\<lambda>dataLength.
     bindE (outHeader r) (\<lambda>hdr.
     bindE (inHeader_Unique r) (\<lambda>u.
     bindE (store hdr 8 (le_encode 8 u) r) (\<lambda>r.
     bindE (store hdr 4 (le_encode 4 (- status r)) r) (\<lambda>r.
     bindE (store hdr 0 (le_encode 4 (word_of_int
              (int sizeOfOutHeader + int dataLength + flatDataSize) :: uint32)) r) (\<lambda>r.
     bindE (slice_to (outputBuf r) (int (dataLength + sizeOfOutHeader))) (\<lambda>ob.
       Inr (r\<lparr>outputBuf := ob\<rparr>)))))))))"

text \<open>\<^verbatim>\<open>func (r *request) flatDataSize() int\<close>\<close>

definition flatDataSize :: "state \<Rightarrow> int" where
  "flatDataSize r = (case fdData r of Some f \<Rightarrow> Sz f | None \<Rightarrow> int (slen (flatData r)))"

section \<open>Concrete requests\<close>

text \<open>The zero value of \<^verbatim>\<open>request\<close>, with an inline output array of \<open>n\<close> bytes, and no
  array outside it.\<close>

definition zeroRequest :: "nat \<Rightarrow> state" where
  "zeroRequest n = \<lparr>inflightIndex = 0, cancel = None, interrupted = False, inputBuf = None,
     outputBuf = None, arg = None, filenames = None, status = 0, flatData = None,
     fdData = None, readResult = None, startTime = 0, bufferPoolInputBuf = None,
     bufferPoolOutputBuf = None, outBuf = replicate n 0, smallInputBuf = replicate 128 0,
     heap = (\<lambda>a. [])\<rparr>"

text \<open>A fresh request after the caller has read \<open>frame\<close> into a buffer of its own
  (array 0 outside the request) and handed it to setInput.\<close>

definition received :: "nat \<Rightarrow> byte list \<Rightarrow> state" where
  "received n frame =
     snd (setInput (Some (Slice (HeapArray 0) 0 (length frame) (length frame)))
       ((zeroRequest n)\<lparr>heap := (\<lambda>a. if a = 0 then frame else [])\<rparr>))"

text \<open>A frame: the in-header (length, opcode, unique, and 24 bytes of node id and
  caller that parse does not read), then the rest.\<close>

definition frame :: "uint32 \<Rightarrow> uint64 \<Rightarrow> byte list \<Rightarrow> byte list" where
  "frame opcode unique rest =
     le_encode 4 (word_of_nat (sizeOfInHeader + length rest) :: uint32) @ le_encode 4 opcode @
     le_encode 8 unique @ replicate 24 0 @ rest"

text \<open>An instance of the package's constants, for running the model: opcode numbers,
  status codes and record sizes as the Linux FUSE protocol has them (an input size
  counts the in-header), with table entries for GETATTR (3), UNLINK (10), RENAME (12),
  READ (15), SETXATTR (21), GETXATTR (22), LISTXATTR (23) and INIT (26).\<close>

definition linuxHandlers :: "(uint32 \<times> operationHandler) list" where
  "linuxHandlers =
     [(3, \<lparr>InputSize = 56, OutputSize = 104, FileNames = 0, FileNameOut = False\<rparr>),
      (10, \<lparr>InputSize = 0, OutputSize = 0, FileNames = 1, FileNameOut = False\<rparr>),
      (12, \<lparr>InputSize = 48, OutputSize = 0, FileNames = 2, FileNameOut = False\<rparr>),
      (15, \<lparr>InputSize = 80, OutputSize = 0, FileNames = 0, FileNameOut = False\<rparr>),
      (21, \<lparr>InputSize = 48, OutputSize = 0, FileNames = 1, FileNameOut = False\<rparr>),
      (22, \<lparr>InputSize = 48, OutputSize = 8, FileNames = 1, FileNameOut = False\<rparr>),
      (23, \<lparr>InputSize = 48, OutputSize = 8, FileNames = 0, FileNameOut = False\<rparr>),
      (26, \<lparr>InputSize = 104, OutputSize = 64, FileNames = 0, FileNameOut = False\<rparr>)]"

definition linuxPkg :: fusepkg where
  "linuxPkg = \<lparr>getHandler = map_of linuxHandlers, outputHeaderSize = 160,
     sizeOfRenameIn = 56, OP_RENAME = 12, OP_INIT = 26, OP_SETXATTR = 21, OP_GETXATTR = 22,
     OP_LISTXATTR = 23, ENOSYS = 38, EIO = 5\<rparr>"


definition xattrName :: "byte list" where
  "xattrName = map of_char ''user.foo''"

text \<open>GETATTR, unique 7: with a complete 16-byte input record and three more bytes, and
  with an input record cut to 8 bytes.\<close>

definition getattrRequest :: state where
  "getattrRequest = received 160 (frame 3 7 (replicate 16 0 @ [1, 2, 3]))"






text \<open>SETXATTR, unique 7: an 8-byte input record, the name user.foo, a NUL and four
  bytes of value.\<close>

definition setxattrRequest :: state where
  "setxattrRequest = received 160 (frame 21 7 (replicate 8 0 @ xattrName @ [0, 1, 2, 3, 4]))"

text \<open>UNLINK, unique 11, of old.txt; UNLINK with an empty name region; and the first 20
  bytes of an UNLINK frame.\<close>

definition unlinkRequest :: state where
  "unlinkRequest = received 160 (frame 10 11 (map of_char ''old.txt'' @ [0]))"

definition unlinkNoName :: state where
  "unlinkNoName = received 160 (frame 10 7 [])"

definition unlinkCut :: state where
  "unlinkCut = received 160 (take 20 (frame 10 7 []))"

text \<open>A frame of 40 bytes whose opcode 0xFFFF has no table entry, unique 7.\<close>

definition unknownRequest :: state where
  "unknownRequest = received 160 (frame 0xFFFF 7 [])"

text \<open>INIT, unique 1, with 72 bytes behind the in-header: 112 bytes, eight more than the
  104 the table declares.\<close>

definition initLong :: state where
  "initLong = received 160 (frame 26 1 (replicate 72 0))"

section \<open>Notions of the specification\<close>


text \<open>The identity handler: status OK and no payload.\<close>

definition identityHandler :: "state \<Rightarrow> state" where
  "identityHandler r = r\<lparr>status := OK, flatData := None, fdData := None\<rparr>"

section \<open>Basic facts\<close>

lemma bindE_Inl [simp]: "bindE (Inl e) f = Inl e"
  by (simp add: bindE_def)

lemma bindE_Inr [simp]: "bindE (Inr x) f = f x"
  by (simp add: bindE_def)

lemma length_le_encode [simp]: "length (le_encode n w) = n"
  by (simp add: le_encode_def)

lemma bit_le_bytes:
  "bit (horner_sum uint 256 (ws :: byte list)) n \<longleftrightarrow>
     n div 8 < length ws \<and> bit (ws ! (n div 8)) (n mod 8)"
  using bit_horner_sum_uint_exp_iff [where 'a = 8, of ws n] by simp

lemma le_decode_encode:
  assumes "LENGTH('a) \<le> 8 * n"
  shows "le_decode (le_encode n w) = (w :: 'a::len word)"
proof (rule bit_word_eqI)
  fix k assume k: "k < LENGTH('a)"
  with assms have d: "k div 8 < n"
    by (simp add: less_mult_imp_div_less mult.commute)
  have "8 * (k div 8) + k mod 8 = k" by simp
  with d k show "bit (le_decode (le_encode n w) :: 'a word) k = bit w k"
    by (simp add: le_decode_def le_encode_def word_rcat_def bit_word_of_int_iff bit_le_bytes
        bit_ucast_iff bit_drop_bit_eq)
qed

lemma le_decode_encode32 [simp]: "le_decode (le_encode 4 w) = (w :: uint32)"
  by (rule le_decode_encode) simp

lemma le_decode_encode64 [simp]: "le_decode (le_encode 8 w) = (w :: uint64)"
  by (rule le_decode_encode) simp

lemma length_overwrite [simp]:
  "p + length bs \<le> length a \<Longrightarrow> length (overwrite a p bs) = length a"
  by (simp add: overwrite_def)

lemma read_overwrite_same:
  "p + length bs \<le> length a \<Longrightarrow> n = length bs \<Longrightarrow> take n (drop p (overwrite a p bs)) = bs"
  by (simp add: overwrite_def)

lemma read_overwrite_before:
  "q + n \<le> p \<Longrightarrow> p + length bs \<le> length a \<Longrightarrow>
   take n (drop q (overwrite a p bs)) = take n (drop q a)"
  by (auto simp: overwrite_def drop_take min_def)

lemma read_overwrite_after:
  "p + length bs \<le> q \<Longrightarrow> p + length bs \<le> length a \<Longrightarrow>
   take n (drop q (overwrite a p bs)) = take n (drop q a)"
  by (simp add: overwrite_def)

lemma array_of_set_array [simp]:
  "array_of (set_array a v r) b = (if b = a then v else array_of r b)"
  by (cases a; cases b) (simp_all add: array_of_def set_array_def)

lemma set_array_fields [simp]:
  "inputBuf (set_array a v r) = inputBuf r"
  "outputBuf (set_array a v r) = outputBuf r"
  "arg (set_array a v r) = arg r"
  "filenames (set_array a v r) = filenames r"
  "status (set_array a v r) = status r"
  "flatData (set_array a v r) = flatData r"
  "fdData (set_array a v r) = fdData r"
  by (cases a; simp add: set_array_def)+


lemma array_of_outputBuf_update [simp]:
  "array_of (r\<lparr>outputBuf := x\<rparr>) b = array_of r b"
  by (cases b) (simp_all add: array_of_def)

lemma store_ok:
  "snd p + k + length bs \<le> length (array_of r (fst p)) \<Longrightarrow>
   store p k bs r = Inr (set_array (fst p) (overwrite (array_of r (fst p)) (snd p + k) bs) r)"
  by (simp add: store_def)

lemma serializeHeader_core:
  assumes op: "inHeader_Opcode r = Inr opcode"
    and uq: "inHeader_Unique r = Inr unique"
    and dl: "serializeHeader_dataLength K r opcode = Inr d"
    and ob: "outputBuf r = Some (Slice a p n c)"
    and n: "0 < n"
    and mem: "p + sizeOfOutHeader \<le> length (array_of r a)"
    and cap: "d + sizeOfOutHeader \<le> c"
  shows "\<exists>r'. serializeHeader K fds r = Inr r' \<and>
     outHeader_Unique r' = Inr unique \<and>
     outHeader_Status r' = Inr (- status r) \<and>
     outHeader_Length r' = Inr (word_of_int (int sizeOfOutHeader + int d + fds)) \<and>
     outputBuf r' = Some (Slice a p (d + sizeOfOutHeader) c)"
proof -
  define U where "U = le_encode 8 unique"
  define S where "S = le_encode 4 (- status r)"
  define L where "L = le_encode 4 (word_of_int (int sizeOfOutHeader + int d + fds) :: uint32)"
  define A where "A = array_of r a"
  define A1 where "A1 = overwrite A (p + 8) U"
  define A2 where "A2 = overwrite A1 (p + 4) S"
  define A3 where "A3 = overwrite A2 p L"
  define r1 where "r1 = set_array a A1 r"
  define r2 where "r2 = set_array a A2 r1"
  define r3 where "r3 = set_array a A3 r2"
  have lens: "length U = 8" "length S = 4" "length L = 4"
    by (simp_all add: U_def S_def L_def)
  have lA: "p + 16 \<le> length A"
    using mem by (simp add: A_def sizeOfOutHeader_def)
  have lA1: "length A1 = length A" using lA lens by (simp add: A1_def)
  have lA2: "length A2 = length A" using lA lens lA1 by (simp add: A2_def)
  have lA3: "length A3 = length A" using lA lens lA2 by (simp add: A3_def)
  have hdr: "outHeader r = Inr (a, p)"
    using ob n by (simp add: outHeader_def elem0_def)
  have s1: "store (a, p) 8 U r = Inr r1"
    using lA lens by (simp add: store_ok r1_def A1_def A_def)
  have s2: "store (a, p) 4 S r1 = Inr r2"
    using lA lens lA1 by (simp add: store_ok r2_def r1_def A2_def)
  have s3: "store (a, p) 0 L r2 = Inr r3"
    using lA lens lA2 by (simp add: store_ok r3_def r2_def r1_def A3_def)
  have st: "status r1 = status r" "outputBuf r3 = outputBuf r"
    by (simp_all add: r1_def r2_def r3_def)
  have sl: "slice_to (outputBuf r) (int (d + sizeOfOutHeader)) =
      Inr (Some (Slice a p (d + sizeOfOutHeader) c))"
    using cap by (simp add: ob slice_to_def scap_def nat_int_add)
  define r' where "r' = r3\<lparr>outputBuf := Some (Slice a p (d + sizeOfOutHeader) c)\<rparr>"
  have run: "serializeHeader K fds r = Inr r'"
    unfolding serializeHeader_def
    by (simp only: op dl hdr uq bindE_Inr st U_def [symmetric] S_def [symmetric]
        L_def [symmetric] s1 s2 s3 sl r'_def)
  have arr: "array_of r' a = A3"
    by (simp add: r'_def r3_def)
  have hdr': "outHeader r' = Inr (a, p)"
    by (simp add: r'_def outHeader_def elem0_def sizeOfOutHeader_def)
  have rL: "take 4 (drop p A3) = L"
    unfolding A3_def using lA lA2 lens by (simp add: read_overwrite_same)
  have rS: "take 4 (drop (p + 4) A3) = S"
  proof -
    have "take 4 (drop (p + 4) A3) = take 4 (drop (p + 4) A2)"
      unfolding A3_def using lA lA2 lens by (simp add: read_overwrite_after)
    also have "\<dots> = S"
      unfolding A2_def using lA lA1 lens by (simp add: read_overwrite_same)
    finally show ?thesis .
  qed
  have rU: "take 8 (drop (p + 8) A3) = U"
  proof -
    have "take 8 (drop (p + 8) A3) = take 8 (drop (p + 8) A2)"
      unfolding A3_def using lA lA2 lens by (simp add: read_overwrite_after)
    also have "\<dots> = take 8 (drop (p + 8) A1)"
      unfolding A2_def using lA lA1 lens by (simp add: read_overwrite_after)
    also have "\<dots> = U"
      unfolding A1_def using lA lens by (simp add: read_overwrite_same)
    finally show ?thesis .
  qed
  have "outHeader_Unique r' = Inr unique"
    using lA lA3 by (simp add: outHeader_Unique_def hdr' load_def arr rU U_def)
  moreover have "outHeader_Status r' = Inr (- status r)"
    using lA lA3 by (simp add: outHeader_Status_def hdr' load_def arr rS S_def)
  moreover have "outHeader_Length r' = Inr (word_of_int (int sizeOfOutHeader + int d + fds))"
    using lA lA3 by (simp add: outHeader_Length_def hdr' load_def arr rL L_def)
  moreover have "outputBuf r' = Some (Slice a p (d + sizeOfOutHeader) c)"
    by (simp add: r'_def)
  ultimately show ?thesis using run by blast
qed


lemma serializeHeader_dataLength_eq:
  assumes "GetXAttrIn_Size r = Inr sz"
  shows "serializeHeader_dataLength K r opcode =
     Inr (if 0 < sint (status r) then 0
          else if (opcode = OP_GETXATTR K \<or> opcode = OP_LISTXATTR K) \<and> sz \<noteq> 0 then 0
          else case getHandler K opcode of None \<Rightarrow> 0 | Some h \<Rightarrow> OutputSize h)"
  using assms by (simp add: serializeHeader_dataLength_def Let_def)

lemma parse_unknown:
  "inHeader_Opcode r = Inr opcode \<Longrightarrow> getHandler K opcode = None \<Longrightarrow>
   parse K swap r = Inr (r\<lparr>status := ENOSYS K\<rparr>)"
  by (simp add: parse_def)


lemma parse_long:
  "inHeader_Opcode r = Inr opcode \<Longrightarrow> getHandler K opcode = Some h \<Longrightarrow>
   \<not> slen (inputBuf r) < parse_inSz K swap r opcode h \<Longrightarrow>
   parse K swap r =
     bindE (slice_from (inputBuf r)
        (if InputSize h > 0 then parse_inSz K swap r opcode h else sizeOfInHeader))
       (\<lambda>a. bindE (parse_filenames K opcode h (r\<lparr>arg := a\<rparr>)) (parse_output K h))"
  by (simp add: parse_def Let_def)

lemma parse_output_ok:
  "OutputSize h + sizeOfOutHeader \<le> length (outBuf r) \<Longrightarrow>
   parse_output K h r = Inr (r\<lparr>outputBuf :=
       Some (Slice OutBufArray 0 (OutputSize h + sizeOfOutHeader) (length (outBuf r))),
     outBuf := overwrite (outBuf r) 0
       (replicate (min (OutputSize h + sizeOfOutHeader) (outputHeaderSize K)) 0)\<rparr>)"
  by (simp add: parse_output_def array_slice_to_def slen_def)

lemma slice_to_init:
  "s_len x \<le> s_cap x \<Longrightarrow> 0 < s_len x \<Longrightarrow>
   slice_to (Some x) (int (slen (Some x)) - 1) =
     Inr (Some (Slice (s_array x) (s_off x) (s_len x - 1) (s_cap x)))"
  by (auto simp: slice_to_def slen_def scap_def nat_diff_distrib)

text \<open>The file-name step changes the file names and the status only; it panics only
  on an empty argument region.\<close>

lemma parse_filenames_ok:
  assumes "arg r = Some x" "s_len x \<le> s_cap x"
    and "FileNames h \<le> 0 \<or> (FileNames h = 1 \<and> opcode = OP_SETXATTR K) \<or> 0 < s_len x"
  shows "\<exists>fn st. parse_filenames K opcode h r = Inr (r\<lparr>filenames := fn, status := st\<rparr>)"
proof -
  have upd: "\<And>fn. r\<lparr>filenames := fn\<rparr> = r\<lparr>filenames := fn, status := status r\<rparr>"
    "r = r\<lparr>filenames := filenames r, status := status r\<rparr>"
    by simp_all
  consider (none) "FileNames h \<le> 0"
    | (setx) "0 < FileNames h" "FileNames h = 1 \<and> opcode = OP_SETXATTR K"
    | (one) "FileNames h = 1" "opcode \<noteq> OP_SETXATTR K" "0 < s_len x"
    | (more) "1 < FileNames h" "0 < s_len x"
    using assms(3) by force
  then show ?thesis
  proof cases
    case none
    then have "parse_filenames K opcode h r = Inr r"
      by (simp add: parse_filenames_def)
    with upd(2) show ?thesis by metis
  next
    case setx
    have ne: "SplitN (bytes_of r (arg r)) 0 2 \<noteq> []"
      by (simp add: SplitN_def)
    then obtain nm rest where "SplitN (bytes_of r (arg r)) 0 2 = nm # rest"
      by (cases "SplitN (bytes_of r (arg r)) 0 2") auto
    with setx have "parse_filenames K opcode h r = Inr (r\<lparr>filenames := Some [gostring nm]\<rparr>)"
      by (simp add: parse_filenames_def)
    with upd(1) show ?thesis by metis
  next
    case one
    then have "parse_filenames K opcode h r =
        Inr (r\<lparr>filenames := Some [gostring (bytes_of r
          (Some (Slice (s_array x) (s_off x) (s_len x - 1) (s_cap x))))]\<rparr>)"
      using assms(1,2) slice_to_init [of x]
      by (simp add: parse_filenames_def)
    with upd(1) show ?thesis by metis
  next
    case more
    define names where "names = SplitN (bytes_of r
        (Some (Slice (s_array x) (s_off x) (s_len x - 1) (s_cap x)))) 0 (FileNames h)"
    from more have "parse_filenames K opcode h r =
        Inr (r\<lparr>filenames := Some (map gostring names),
          status := (if int (length names) = FileNames h then status r else EIO K)\<rparr>)"
      using assms(1,2) slice_to_init [of x]
      by (simp add: parse_filenames_def Let_def names_def split del: if_split)
    then show ?thesis by blast
  qed
qed


text \<open>The state after a parse that reaches its last line.\<close>

lemma parse_long_result:
  assumes op: "inHeader_Opcode r = Inr opcode"
    and h: "getHandler K opcode = Some h"
    and ib: "inputBuf r = Some (Slice a p n c)"
    and wf: "n \<le> c"
    and long: "\<not> n < parse_inSz K swap r opcode h"
    and off: "off = (if InputSize h > 0 then parse_inSz K swap r opcode h else sizeOfInHeader)"
    and offn: "off \<le> n"
    and names: "FileNames h \<le> 0 \<or> (FileNames h = 1 \<and> opcode = OP_SETXATTR K) \<or> off < n"
    and out: "OutputSize h + sizeOfOutHeader \<le> length (outBuf r)"
  shows "\<exists>fn st. parse K swap r =
     Inr (r\<lparr>arg := Some (Slice a (p + off) (n - off) (c - off)), filenames := fn, status := st,
       outputBuf := Some (Slice OutBufArray 0 (OutputSize h + sizeOfOutHeader) (length (outBuf r))),
       outBuf := overwrite (outBuf r) 0
         (replicate (min (OutputSize h + sizeOfOutHeader) (outputHeaderSize K)) 0)\<rparr>)"
proof -
  define x where "x = Slice a (p + off) (n - off) (c - off)"
  have sl: "slice_from (inputBuf r) off = Inr (Some x)"
    using offn by (simp add: slice_from_def ib slen_def x_def)
  have "\<exists>fn st. parse_filenames K opcode h (r\<lparr>arg := Some x\<rparr>) =
      Inr (r\<lparr>arg := Some x\<rparr>\<lparr>filenames := fn, status := st\<rparr>)"
  proof (rule parse_filenames_ok)
    show "arg (r\<lparr>arg := Some x\<rparr>) = Some x" by simp
    show "s_len x \<le> s_cap x" using wf by (simp add: x_def)
    show "FileNames h \<le> 0 \<or> (FileNames h = 1 \<and> opcode = OP_SETXATTR K) \<or> 0 < s_len x"
      using names by (auto simp: x_def)
  qed
  then obtain fn st where pf: "parse_filenames K opcode h (r\<lparr>arg := Some x\<rparr>) =
      Inr (r\<lparr>arg := Some x, filenames := fn, status := st\<rparr>)"
    by auto
  have po: "parse_output K h (r\<lparr>arg := Some x, filenames := fn, status := st\<rparr>) =
      Inr (r\<lparr>arg := Some x, filenames := fn, status := st,
       outputBuf := Some (Slice OutBufArray 0 (OutputSize h + sizeOfOutHeader) (length (outBuf r))),
       outBuf := overwrite (outBuf r) 0
         (replicate (min (OutputSize h + sizeOfOutHeader) (outputHeaderSize K)) 0)\<rparr>)"
    using out by (simp add: parse_output_ok)
  have "parse K swap r =
      bindE (slice_from (inputBuf r) off)
       (\<lambda>a. bindE (parse_filenames K opcode h (r\<lparr>arg := a\<rparr>)) (parse_output K h))"
    using parse_long [OF op h, of swap] long by (simp add: ib slen_def off)
  then have "parse K swap r = Inr (r\<lparr>arg := Some x, filenames := fn, status := st,
       outputBuf := Some (Slice OutBufArray 0 (OutputSize h + sizeOfOutHeader) (length (outBuf r))),
       outBuf := overwrite (outBuf r) 0
         (replicate (min (OutputSize h + sizeOfOutHeader) (outputHeaderSize K)) 0)\<rparr>)"
    by (simp add: sl pf po)
  then show ?thesis unfolding x_def by blast
qed

text \<open>The fields read from the input depend on the input slice and its array only.\<close>

lemma input_reads_cong:
  assumes "inputBuf r' = inputBuf r"
    and "\<And>x. inputBuf r = Some x \<Longrightarrow> array_of r' (s_array x) = array_of r (s_array x)"
  shows "inHeader_Opcode r' = inHeader_Opcode r"
    and "inHeader_Unique r' = inHeader_Unique r"
    and "GetXAttrIn_Size r' = GetXAttrIn_Size r"
  using assms
  by (cases "inputBuf r";
      simp add: inHeader_Opcode_def inHeader_Unique_def GetXAttrIn_Size_def inData_def
        elem0_def load_def)+

text \<open>On a request whose arg is still empty, the INIT test of line 196 holds for every
  nonzero declared size.\<close>

lemma parse_inSz_init:
  "slen (arg r) = 0 \<Longrightarrow> 0 < InputSize h \<Longrightarrow> OP_INIT K \<noteq> OP_RENAME K \<Longrightarrow>
   parse_inSz K swap r (OP_INIT K) h = slen (inputBuf r)"
  by (simp add: parse_inSz_def)

text \<open>Without an output buffer, serializeHeader panics at \<^verbatim>\<open>r.outputBuf[0]\<close>.\<close>

lemma serializeHeader_without_outputBuf:
  "inHeader_Opcode r = Inr opcode \<Longrightarrow> serializeHeader_dataLength K r opcode = Inr d \<Longrightarrow>
   slen (outputBuf r) = 0 \<Longrightarrow> serializeHeader K fds r = Inl IndexOutOfRange"
  by (cases "outputBuf r") (simp_all add: serializeHeader_def outHeader_def elem0_def slen_def)


lemma splitAt_first:
  assumes "sep \<notin> set name"
  shows "splitAt sep (Suc k) (name @ sep # rest) = name # splitAt sep k rest"
proof -
  have all: "\<forall>b\<in>set name. b \<noteq> sep" using assms by auto
  have t: "takeWhile (\<lambda>b. b \<noteq> sep) (name @ sep # rest) = name"
    using all by (simp add: takeWhile_append2)
  have d: "dropWhile (\<lambda>b. b \<noteq> sep) (name @ sep # rest) = sep # rest"
    using all by (simp add: dropWhile_append2)
  show ?thesis by (simp add: t d)
qed

lemma SplitN_first:
  "sep \<notin> set name \<Longrightarrow> SplitN (name @ sep # rest) sep 2 = [name, rest]"
  using splitAt_first [of sep name 0 rest] by (simp add: SplitN_def)

lemma array_of_arg_update [simp]: "array_of (r\<lparr>arg := x\<rparr>) b = array_of r b"
  by (cases b) (simp_all add: array_of_def)

section \<open>Properties\<close>






text \<open>C3, on a frame whose opcode 0xFFFF has no table entry, received by a fresh
  request: parse sets the status to ENOSYS and returns before the line that allocates
  outputBuf, which stays nil; serializeHeader then panics with an index out of range
  at \<^verbatim>\<open>r.outputBuf[0]\<close> and writes no reply.\<close>

theorem unknown_opcode_leaves_no_output_buffer:
  "inHeader_Opcode unknownRequest = Inr 0xFFFF \<and> getHandler linuxPkg 0xFFFF = None \<and>
   (case parse linuxPkg False unknownRequest of
      Inl e \<Rightarrow> False
    | Inr r \<Rightarrow> status r = ENOSYS linuxPkg \<and> outputBuf r = None \<and>
        (case serializeHeader linuxPkg (flatDataSize r) r of
           Inl e \<Rightarrow> e = IndexOutOfRange
         | Inr r' \<Rightarrow> False))"
  by code_simp

text \<open>With an output buffer, serializeHeader does produce the header-only reply for an
  opcode without a table entry: the early return of parse is what keeps it from
  running.\<close>

lemma unknown_opcode_reply_with_outputBuf:
  assumes op: "inHeader_Opcode r = Inr opcode"
    and none: "getHandler K opcode = None"
    and x: "opcode \<noteq> OP_GETXATTR K" "opcode \<noteq> OP_LISTXATTR K"
    and uq: "inHeader_Unique r = Inr unique"
    and ob: "outputBuf r = Some (Slice a p n c)" "0 < n"
      "p + sizeOfOutHeader \<le> length (array_of r a)"
    and cap: "sizeOfOutHeader \<le> c"
  shows "\<exists>r'. serializeHeader K 0 r = Inr r' \<and>
     outHeader_Length r' = Inr (word_of_nat sizeOfOutHeader) \<and>
     outHeader_Status r' = Inr (- status r) \<and> outHeader_Unique r' = Inr unique \<and>
     slen (outputBuf r') = sizeOfOutHeader"
proof -
  have dl: "serializeHeader_dataLength K r opcode = Inr 0"
    using none x by (simp add: serializeHeader_dataLength_def)
  have cap': "0 + sizeOfOutHeader \<le> c" using cap by simp
  from serializeHeader_core [OF op uq dl ob cap', of 0]
  show ?thesis by (auto simp: slen_def)
qed

text \<open>C4, on three malformed frames received by a fresh request: parse followed by
  serializeHeader panics on an opcode without a table entry (index out of range at
  \<^verbatim>\<open>r.outputBuf[0]\<close>); parse itself panics on a one-name opcode with an empty name
  region (slice bounds out of range at \<^verbatim>\<open>r.arg[:len(r.arg)-1]\<close>) and on a frame of 20
  bytes whose opcode has no input record (slice bounds out of range at
  \<^verbatim>\<open>r.inputBuf[unsafe.Sizeof(InHeader{}):]\<close>).\<close>

theorem parse_and_serializeHeader_panic:
  "(case bindE (parse linuxPkg False unknownRequest)
        (\<lambda>r. serializeHeader linuxPkg (flatDataSize r) r) of
      Inl e \<Rightarrow> e = IndexOutOfRange
    | Inr r' \<Rightarrow> False) \<and>
   (case parse linuxPkg False unlinkNoName of
      Inl e \<Rightarrow> e = SliceBoundsOutOfRange
    | Inr r' \<Rightarrow> False) \<and>
   (case parse linuxPkg False unlinkCut of
      Inl e \<Rightarrow> e = SliceBoundsOutOfRange
    | Inr r' \<Rightarrow> False)"
  by code_simp

text \<open>C5: for a SETXATTR request whose table entry has one file name, whose frame holds
  the input record, and whose argument region is a name without NUL, a NUL and a value,
  parse returns with filenames equal to the one name before the first NUL. arg is the
  whole argument region, unchanged by the split: it still holds the name, the NUL and
  the value, so the value is the part of arg behind the first NUL.\<close>

theorem parse_setxattr_name_and_value:
  fixes K :: fusepkg and r :: state and h :: operationHandler
  defines "offset \<equiv> (if InputSize h > 0 then InputSize h else sizeOfInHeader)"
  assumes op: "inHeader_Opcode r = Inr (OP_SETXATTR K)"
    and h: "getHandler K (OP_SETXATTR K) = Some h"
    and one: "FileNames h = 1"
    and ops: "OP_SETXATTR K \<noteq> OP_RENAME K" "OP_SETXATTR K \<noteq> OP_INIT K"
    and ib: "inputBuf r = Some (Slice a p n c)"
    and wf: "n \<le> c" "a \<noteq> OutBufArray"
    and len: "InputSize h \<le> n" "offset \<le> n"
    and region: "drop offset (bytes_of r (inputBuf r)) = name @ 0 # val"
    and name: "0 \<notin> set name"
    and out: "OutputSize h + sizeOfOutHeader \<le> length (outBuf r)"
  shows "\<exists>r'. parse K swap r = Inr r' \<and>
     filenames r' = Some [gostring name] \<and>
     arg r' = Some (Slice a (p + offset) (n - offset) (c - offset)) \<and>
     bytes_of r' (arg r') = name @ 0 # val \<and>
     drop (length name + 1) (bytes_of r' (arg r')) = val"
proof -
  let ?x = "Slice a (p + offset) (n - offset) (c - offset)"
  let ?A = "array_of r a"
  have inSz: "parse_inSz K swap r (OP_SETXATTR K) h = InputSize h"
    using ops by (simp add: parse_inSz_def)
  have long: "\<not> slen (inputBuf r) < parse_inSz K swap r (OP_SETXATTR K) h"
    using len by (simp add: inSz ib slen_def)
  have off: "offset = (if InputSize h > 0 then parse_inSz K swap r (OP_SETXATTR K) h
      else sizeOfInHeader)"
    by (simp add: inSz offset_def)
  have names: "FileNames h \<le> 0 \<or> (FileNames h = 1 \<and> OP_SETXATTR K = OP_SETXATTR K) \<or> offset < n"
    using one by simp
  have bytes: "take (n - offset) (drop (p + offset) ?A) = name @ 0 # val"
    using region by (simp add: bytes_of_def ib drop_take add.commute)
  have long': "parse K swap r =
      bindE (slice_from (inputBuf r) offset)
       (\<lambda>a. bindE (parse_filenames K (OP_SETXATTR K) h (r\<lparr>arg := a\<rparr>)) (parse_output K h))"
    using parse_long [OF op h long] off by simp
  have sl: "slice_from (inputBuf r) offset = Inr (Some ?x)"
    using len by (simp add: slice_from_def ib slen_def)
  have pf: "parse_filenames K (OP_SETXATTR K) h (r\<lparr>arg := Some ?x\<rparr>) =
      Inr (r\<lparr>arg := Some ?x, filenames := Some [gostring name]\<rparr>)"
    using one name
    by (simp add: parse_filenames_def bytes_of_def bytes SplitN_first)
  define r' where "r' = r\<lparr>arg := Some ?x, filenames := Some [gostring name],
       outputBuf := Some (Slice OutBufArray 0 (OutputSize h + sizeOfOutHeader) (length (outBuf r))),
       outBuf := overwrite (outBuf r) 0
         (replicate (min (OutputSize h + sizeOfOutHeader) (outputHeaderSize K)) 0)\<rparr>"
  have run: "parse K swap r = Inr r'"
    using out by (simp add: long' sl pf parse_output_ok r'_def)
  have arr: "array_of r' a = ?A"
    using wf(2) by (cases a) (simp_all add: r'_def array_of_def)
  have f: "filenames r' = Some [gostring name]" "arg r' = Some ?x"
    by (simp_all add: r'_def)
  have b: "bytes_of r' (Some ?x) = name @ 0 # val"
    by (simp add: bytes_of_def arr bytes)
  show ?thesis
    by (rule exI [of _ r']) (simp add: run f b)
qed

theorem parse_setxattr_name_and_value_witness:
  "\<exists>r'. parse linuxPkg False setxattrRequest = Inr r' \<and>
     filenames r' = Some [''user.foo''] \<and>
     arg r' = Some (Slice SmallInputBufArray 48 13 80) \<and>
     bytes_of r' (arg r') = xattrName @ [0, 1, 2, 3, 4] \<and>
     drop 9 (bytes_of r' (arg r')) = [1, 2, 3, 4]"
proof -
  let ?h = "\<lparr>InputSize = 48, OutputSize = 0, FileNames = 1, FileNameOut = False\<rparr>"
  have op: "inHeader_Opcode setxattrRequest = Inr (OP_SETXATTR linuxPkg)" by code_simp
  have h: "getHandler linuxPkg (OP_SETXATTR linuxPkg) = Some ?h" by code_simp
  have one: "FileNames ?h = 1" by simp
  have ops: "OP_SETXATTR linuxPkg \<noteq> OP_RENAME linuxPkg"
    "OP_SETXATTR linuxPkg \<noteq> OP_INIT linuxPkg"
    by (simp_all add: linuxPkg_def)
  have ib: "inputBuf setxattrRequest = Some (Slice SmallInputBufArray 0 61 128)" by code_simp
  have wf: "(61 :: nat) \<le> 128" "SmallInputBufArray \<noteq> OutBufArray" by simp_all
  have len: "InputSize ?h \<le> 61"
    "(if InputSize ?h > 0 then InputSize ?h else sizeOfInHeader) \<le> 61"
    by simp_all
  have region: "drop (if InputSize ?h > 0 then InputSize ?h else sizeOfInHeader)
      (bytes_of setxattrRequest (inputBuf setxattrRequest)) = xattrName @ 0 # [1, 2, 3, 4]"
    by code_simp
  have name: "0 \<notin> set xattrName" by code_simp
  have out: "OutputSize ?h + sizeOfOutHeader \<le> length (outBuf setxattrRequest)" by code_simp
  have s: "gostring xattrName = ''user.foo''" by code_simp
  have l: "length xattrName = 8" by code_simp
  show ?thesis
    using parse_setxattr_name_and_value [OF op h one ops ib wf len region name out, of False]
    by (simp add: s l)
qed

text \<open>C6, as the code has it: for an input shorter than the 128 bytes of the inline
  array, setInput copies the bytes into the inline array, makes inputBuf the slice of
  that array holding the copy, leaves the pool buffers and the arrays outside the
  request alone and returns false. For an input of 128 bytes or more, setInput makes
  inputBuf the caller's slice, records the same slice extended to its capacity as
  bufferPoolInputBuf and returns true.\<close>

theorem setInput_small_or_large:
  assumes small: "length (smallInputBuf r) = 128"
    and inp: "length (bytes_of r input) = slen input"
  shows "if slen input < 128
     then \<exists>r'. setInput input r = (False, r') \<and>
            inputBuf r' = Some (Slice SmallInputBufArray 0 (slen input) 128) \<and>
            bytes_of r' (inputBuf r') = bytes_of r input \<and>
            bufferPoolInputBuf r' = bufferPoolInputBuf r \<and>
            bufferPoolOutputBuf r' = bufferPoolOutputBuf r \<and> heap r' = heap r
     else \<exists>r'. setInput input r = (True, r') \<and> inputBuf r' = input \<and>
            bufferPoolInputBuf r' =
              map_option (\<lambda>x. Slice (s_array x) (s_off x) (s_cap x) (s_cap x)) input \<and>
            slen (bufferPoolInputBuf r') = scap input \<and>
            smallInputBuf r' = smallInputBuf r \<and> heap r' = heap r"
proof (cases "slen input < 128")
  case True
  define B where "B = bytes_of r input"
  define r' where "r' = r\<lparr>smallInputBuf := overwrite (smallInputBuf r) 0 B,
      inputBuf := Some (Slice SmallInputBufArray 0 (slen input) 128)\<rparr>"
  have lB: "length B = slen input" by (simp add: B_def inp)
  have run: "setInput input r = (False, r')"
    using True lB by (simp add: setInput_def small r'_def B_def)
  have "bytes_of r' (inputBuf r') = B"
    using True lB by (simp add: r'_def bytes_of_def array_of_def overwrite_def)
  then have "inputBuf r' = Some (Slice SmallInputBufArray 0 (slen input) 128) \<and>
      bytes_of r' (inputBuf r') = bytes_of r input \<and>
      bufferPoolInputBuf r' = bufferPoolInputBuf r \<and>
      bufferPoolOutputBuf r' = bufferPoolOutputBuf r \<and> heap r' = heap r"
    by (simp add: B_def) (simp add: r'_def)
  with run True show ?thesis by auto
next
  case False
  then show ?thesis
    by (cases input) (simp_all add: setInput_def small slen_def scap_def)
qed

text \<open>An input of exactly 128 bytes fits in the inline array of 128 bytes, and setInput
  takes ownership of it.\<close>

theorem setInput_128_bytes_takes_ownership:
  "slen (Some (Slice (HeapArray 0) 0 128 128)) \<le> length (smallInputBuf (zeroRequest 160)) \<and>
   fst (setInput (Some (Slice (HeapArray 0) 0 128 128))
     ((zeroRequest 160)\<lparr>heap := (\<lambda>a. replicate 128 1)\<rparr>)) = True"
  by code_simp

theorem setInput_small_or_large_witness:
  "(\<exists>r'. setInput (Some (Slice (HeapArray 0) 0 40 4096))
        ((zeroRequest 160)\<lparr>heap := (\<lambda>a. replicate 4096 1)\<rparr>) = (False, r') \<and>
      inputBuf r' = Some (Slice SmallInputBufArray 0 40 128) \<and>
      bytes_of r' (inputBuf r') = replicate 40 1 \<and> bufferPoolInputBuf r' = None) \<and>
   (\<exists>r'. setInput (Some (Slice (HeapArray 0) 0 200 4096))
        ((zeroRequest 160)\<lparr>heap := (\<lambda>a. replicate 4096 1)\<rparr>) = (True, r') \<and>
      inputBuf r' = Some (Slice (HeapArray 0) 0 200 4096) \<and>
      bufferPoolInputBuf r' = Some (Slice (HeapArray 0) 0 4096 4096))"
proof -
  let ?r = "(zeroRequest 160)\<lparr>heap := (\<lambda>a. replicate 4096 1)\<rparr>"
  have s: "length (smallInputBuf ?r) = 128" by (simp add: zeroRequest_def)
  have i1: "length (bytes_of ?r (Some (Slice (HeapArray 0) 0 40 4096))) =
      slen (Some (Slice (HeapArray 0) 0 40 4096))"
    by (simp add: bytes_of_def array_of_def slen_def)
  have i2: "length (bytes_of ?r (Some (Slice (HeapArray 0) 0 200 4096))) =
      slen (Some (Slice (HeapArray 0) 0 200 4096))"
    by (simp add: bytes_of_def array_of_def slen_def)
  have b: "bytes_of ?r (Some (Slice (HeapArray 0) 0 40 4096)) = replicate 40 1"
    by (simp add: bytes_of_def array_of_def)
  have p: "bufferPoolInputBuf ?r = None" by (simp add: zeroRequest_def)
  show ?thesis
    using setInput_small_or_large [OF s i1] setInput_small_or_large [OF s i2]
    by (simp add: slen_def b p) blast
qed

text \<open>C7, on an INIT frame of 112 bytes received by a fresh request, the table declaring
  104: the test compares the declared size with \<^verbatim>\<open>len(r.arg)\<close>, and arg is still nil
  when the test runs, so the declared size is not kept: parse adopts the received 112
  bytes as the input size, and arg is the empty slice at offset 112 instead of the eight
  bytes behind offset 104. The status stays OK.\<close>

theorem init_longer_than_declared_adopts_received:
  "getHandler linuxPkg (OP_INIT linuxPkg) =
     Some \<lparr>InputSize = 104, OutputSize = 64, FileNames = 0, FileNameOut = False\<rparr> \<and>
   inHeader_Opcode initLong = Inr (OP_INIT linuxPkg) \<and> slen (inputBuf initLong) = 112 \<and>
   arg initLong = None \<and>
   parse_inSz linuxPkg False initLong (OP_INIT linuxPkg)
     \<lparr>InputSize = 104, OutputSize = 64, FileNames = 0, FileNameOut = False\<rparr> = 112 \<and>
   (case parse linuxPkg False initLong of
      Inl e \<Rightarrow> False
    | Inr r \<Rightarrow> status r = OK \<and> arg r = Some (Slice SmallInputBufArray 112 0 16))"
  by code_simp



text \<open>C9, as the code has it: for a well-formed frame (its opcode has a table entry, it
  is long enough for the input size, its name region is not empty where names are cut
  from it, the output record fits the inline array), parse returns, and serializeHeader
  on the parsed request after the identity handler returns a reply whose unique is the
  unique of the frame and whose length field is sizeOfOutHeader plus the structured
  length: the output size of the table entry, or 0 for GETXATTR and LISTXATTR with a
  nonzero Size. The length is sizeOfOutHeader itself exactly when that structured
  length is 0.\<close>

theorem roundtrip_identity_handler:
  fixes K :: fusepkg and r :: state and h :: operationHandler and opcode sz :: uint32
  defines "structured \<equiv>
     (if (opcode = OP_GETXATTR K \<or> opcode = OP_LISTXATTR K) \<and> sz \<noteq> 0 then 0 else OutputSize h)"
  assumes op: "inHeader_Opcode r = Inr opcode"
    and h: "getHandler K opcode = Some h"
    and uq: "inHeader_Unique r = Inr unique"
    and sz: "GetXAttrIn_Size r = Inr sz"
    and ib: "inputBuf r = Some (Slice a p n c)"
    and wf: "n \<le> c" "a \<noteq> OutBufArray"
    and long: "\<not> n < parse_inSz K swap r opcode h"
    and off: "offset = (if InputSize h > 0 then parse_inSz K swap r opcode h else sizeOfInHeader)"
    and offn: "offset \<le> n"
    and names: "FileNames h \<le> 0 \<or> (FileNames h = 1 \<and> opcode = OP_SETXATTR K) \<or> offset < n"
    and out: "OutputSize h + sizeOfOutHeader \<le> length (outBuf r)"
  shows "\<exists>r1 r2. parse K swap r = Inr r1 \<and>
     serializeHeader K (flatDataSize (identityHandler r1)) (identityHandler r1) = Inr r2 \<and>
     outHeader_Length r2 = Inr (word_of_nat (sizeOfOutHeader + structured)) \<and>
     outHeader_Unique r2 = Inr unique"
proof -
  from parse_long_result [OF op h ib wf(1) long off offn names out]
  obtain fn st where run: "parse K swap r =
     Inr (r\<lparr>arg := Some (Slice a (p + offset) (n - offset) (c - offset)), filenames := fn,
       status := st,
       outputBuf := Some (Slice OutBufArray 0 (OutputSize h + sizeOfOutHeader) (length (outBuf r))),
       outBuf := overwrite (outBuf r) 0
         (replicate (min (OutputSize h + sizeOfOutHeader) (outputHeaderSize K)) 0)\<rparr>)"
    (is "_ = Inr ?r1")
    by blast
  define r1 where "r1 = ?r1"
  define q where "q = identityHandler r1"
  have ibq: "inputBuf q = inputBuf r"
    by (simp add: q_def identityHandler_def r1_def)
  have arq: "\<And>x. inputBuf r = Some x \<Longrightarrow> array_of q (s_array x) = array_of r (s_array x)"
    using wf(2) ib by (cases a) (auto simp: q_def identityHandler_def r1_def array_of_def)
  have opq: "inHeader_Opcode q = Inr opcode"
    using input_reads_cong(1) [OF ibq arq] op by simp
  have uqq: "inHeader_Unique q = Inr unique"
    using input_reads_cong(2) [OF ibq arq] uq by simp
  have szq: "GetXAttrIn_Size q = Inr sz"
    using input_reads_cong(3) [OF ibq arq] sz by simp
  have stq: "status q = 0" "fdData q = None" "flatData q = None"
    by (simp_all add: q_def identityHandler_def OK_def)
  have dl: "serializeHeader_dataLength K q opcode = Inr structured"
    using serializeHeader_dataLength_eq [OF szq, of K opcode]
    by (simp add: stq h structured_def)
  have obq: "outputBuf q =
      Some (Slice OutBufArray 0 (OutputSize h + sizeOfOutHeader) (length (outBuf r)))"
    by (simp add: q_def identityHandler_def r1_def)
  have pos: "0 < OutputSize h + sizeOfOutHeader"
    by (simp add: sizeOfOutHeader_def)
  have mem: "0 + sizeOfOutHeader \<le> length (array_of q OutBufArray)"
    using out by (simp add: q_def identityHandler_def r1_def array_of_def)
  have cap: "structured + sizeOfOutHeader \<le> length (outBuf r)"
    using out by (simp add: structured_def)
  from serializeHeader_core [OF opq uqq dl obq pos mem cap, of "flatDataSize q"]
  obtain r2 where "serializeHeader K (flatDataSize q) q = Inr r2"
    "outHeader_Unique r2 = Inr unique"
    "outHeader_Length r2 = Inr (word_of_int (int sizeOfOutHeader + int structured + flatDataSize q))"
    by blast
  moreover have "flatDataSize q = 0"
    by (simp add: flatDataSize_def stq slen_def)
  ultimately show ?thesis
    using run unfolding q_def r1_def by (intro exI [of _ ?r1] exI [of _ r2]) simp
qed

text \<open>GETATTR has an output record of 104 bytes: after the identity handler the length
  field is 120, not 16.\<close>

theorem roundtrip_getattr_length_is_120:
  "(case parse linuxPkg False getattrRequest of
      Inl e \<Rightarrow> False
    | Inr r1 \<Rightarrow> status r1 = OK \<and>
        (case serializeHeader linuxPkg (flatDataSize (identityHandler r1)) (identityHandler r1) of
           Inl e \<Rightarrow> False
         | Inr r2 \<Rightarrow> outHeader_Length r2 = Inr 120 \<and>
             outHeader_Length r2 \<noteq> Inr (word_of_nat sizeOfOutHeader)))"
  by code_simp

theorem roundtrip_identity_handler_witness:
  "\<exists>r1 r2. parse linuxPkg False unlinkRequest = Inr r1 \<and>
     serializeHeader linuxPkg (flatDataSize (identityHandler r1)) (identityHandler r1) = Inr r2 \<and>
     outHeader_Length r2 = Inr 16 \<and> outHeader_Unique r2 = Inr 11"
proof -
  let ?h = "\<lparr>InputSize = 0, OutputSize = 0, FileNames = 1, FileNameOut = False\<rparr>"
  have op: "inHeader_Opcode unlinkRequest = Inr 10" by code_simp
  have h: "getHandler linuxPkg 10 = Some ?h" by code_simp
  have uq: "inHeader_Unique unlinkRequest = Inr 11" by code_simp
  have sz: "GetXAttrIn_Size unlinkRequest = Inr 0x2E646C6F" by code_simp
  have ib: "inputBuf unlinkRequest = Some (Slice SmallInputBufArray 0 48 128)" by code_simp
  have wf: "(48 :: nat) \<le> 128" "SmallInputBufArray \<noteq> OutBufArray" by simp_all
  have inSz: "parse_inSz linuxPkg False unlinkRequest 10 ?h = 0" by code_simp
  have long: "\<not> 48 < parse_inSz linuxPkg False unlinkRequest 10 ?h" by (simp add: inSz)
  have off: "40 = (if InputSize ?h > 0 then parse_inSz linuxPkg False unlinkRequest 10 ?h
      else sizeOfInHeader)"
    by (simp add: sizeOfInHeader_def)
  have offn: "(40 :: nat) \<le> 48" by simp
  have names: "FileNames ?h \<le> 0 \<or> (FileNames ?h = 1 \<and> (10 :: uint32) = OP_SETXATTR linuxPkg) \<or>
      (40 :: nat) < 48"
    by simp
  have out: "OutputSize ?h + sizeOfOutHeader \<le> length (outBuf unlinkRequest)" by code_simp
  show ?thesis
    using roundtrip_identity_handler [OF op h uq sz ib wf long off offn names out]
    by (simp add: sizeOfOutHeader_def linuxPkg_def)
qed

text \<open>C10: clear() sets inputBuf, outputBuf, arg, filenames, flatData, fdData and
  readResult to nil, status to OK and startTime to the zero time, and leaves
  bufferPoolInputBuf, bufferPoolOutputBuf, cancel, interrupted and inflightIndex (and
  the two inline arrays, and every array outside the request) as they were: the pool
  buffer references and the interrupted flag survive a clear().\<close>

theorem clear_resets_and_keeps:
  "inputBuf (clear r) = None \<and> outputBuf (clear r) = None \<and> arg (clear r) = None \<and>
   filenames (clear r) = None \<and> flatData (clear r) = None \<and> fdData (clear r) = None \<and>
   readResult (clear r) = None \<and> status (clear r) = OK \<and> startTime (clear r) = 0 \<and>
   bufferPoolInputBuf (clear r) = bufferPoolInputBuf r \<and>
   bufferPoolOutputBuf (clear r) = bufferPoolOutputBuf r \<and>
   cancel (clear r) = cancel r \<and> interrupted (clear r) = interrupted r \<and>
   inflightIndex (clear r) = inflightIndex r \<and>
   outBuf (clear r) = outBuf r \<and> smallInputBuf (clear r) = smallInputBuf r \<and>
   heap (clear r) = heap r"
  by (simp add: clear_def)

end
